theory Spec2Isabelle
  imports Main "HOL-Library.Sublist"
begin

section \<open>Server-side renderer: data\<close>

text \<open>
  A shallow embedding of \<^verbatim>\<open>src/server/renderer.jsx\<close>: the factory that reads the build
  information and returns the ExpressJS request handler, and the handler itself, which
  asks the \<^verbatim>\<open>beforeRender\<close> hook and a fresh cipher for their results, encrypts the data to
  inject, and sends one HTML document built from a template literal.

  JavaScript strings and node-forge's binary strings are both lists of characters.
\<close>

type_synonym bytes = string

datatype json =
    JNull
  | JBool bool
  | JNum int
  | JStr string
  | JArr "json list"
  | JObj "(string \<times> json) list"

text \<open>A plain object is the list of its own enumerable entries, in insertion order.\<close>

type_synonym config = "(string \<times> json) list"

text \<open>
  The errors the code can meet, named as the specification's taxonomy names them:
  \<^item> \<open>BuildInfoMissing\<close>: the \<^verbatim>\<open>err\<close> that \<^verbatim>\<open>fs.readFile\<close> hands to its callback;
  \<^item> \<open>BuildInfoCorrupt\<close>: the \<^verbatim>\<open>SyntaxError\<close> that \<^verbatim>\<open>JSON.parse\<close> throws;
  \<^item> \<open>CryptoBackendUnavailable\<close>: the \<^verbatim>\<open>err\<close> that \<^verbatim>\<open>forge.random.getBytes\<close> hands to
    its callback;
  \<^item> \<open>HookRejected\<close>: the reason the promise returned by \<^verbatim>\<open>beforeRender\<close> rejects with.
\<close>

datatype error =
    BuildInfoMissing
  | BuildInfoCorrupt
  | CryptoBackendUnavailable
  | HookRejected string

text \<open>
  How a promise ends. \<open>Uncaught\<close> is an exception thrown inside a library callback, after
  the promise's executor has returned: the promise is never settled and the exception
  reaches the process as an uncaught one.
\<close>

datatype 'a promise =
    Resolved 'a
  | Rejected error
  | Uncaught error

record build_info =
  timestamp :: string
  key :: bytes

text \<open>\<^verbatim>\<open>webpackConfig.context\<close> and \<^verbatim>\<open>webpackConfig.output.publicPath\<close>.\<close>

record webpack_config =
  wp_context :: string
  publicPath :: string

record request =
  url :: string

record redux_store =
  getState :: json

text \<open>The per-request \<^verbatim>\<open>context\<close> object; \<^verbatim>\<open>status\<close> is absent unless somebody sets it.\<close>

record render_context =
  chunks :: "string list"
  splits :: "(string \<times> string) list"
  status :: "nat option"

text \<open>What \<^verbatim>\<open>Helmet.renderStatic()\<close> returns, as the strings its fields print to.\<close>

record helmet_data =
  title :: string
  meta :: string

text \<open>What the \<^verbatim>\<open>beforeRender\<close> promise resolves to; every field may be undefined.\<close>

record hook_result =
  configToInject :: "json option"
  extraScripts :: "string list option"
  store :: "redux_store option"

type_synonym component = string

record options =
  Application :: "component option"
  beforeRender :: "(request \<Rightarrow> config \<Rightarrow> error + hook_result) option"
  maxSsrRounds :: "nat option"

text \<open>
  A React element is a plain object: JSX only builds it. The three shapes the handler builds.
\<close>

datatype element =
    Elem component
  | StaticRouter render_context string element
  | Provider redux_store element

text \<open>
  The libraries the code calls, as parameters: \<^verbatim>\<open>path.resolve\<close>, \<^verbatim>\<open>fs.readFile\<close> (\<open>None\<close>
  when it reports an error), \<^verbatim>\<open>JSON.parse\<close> on the build information (\<open>None\<close> when it
  throws), \<^verbatim>\<open>JSON.stringify\<close>, \<^verbatim>\<open>forge.util.createBuffer(_, 'utf8')\<close>, the output of an
  AES-CBC cipher for a key, an initial vector and the bytes fed to it,
  \<^verbatim>\<open>forge.util.encode64\<close>, \<^verbatim>\<open>serializeJs(_, {isJSON: true})\<close> and \<^verbatim>\<open>Helmet.renderStatic()\<close>.
  \<open>hook_first\<close> says which of two rejections \<^verbatim>\<open>Promise.all\<close> sees first when both of its
  promises reject.
\<close>

record libs =
  path_resolve :: "string \<Rightarrow> string \<Rightarrow> string"
  readFile :: "string \<Rightarrow> string option"
  JSON_parse :: "string \<Rightarrow> build_info option"
  JSON_stringify :: "json \<Rightarrow> string"
  createBuffer_utf8 :: "string \<Rightarrow> bytes"
  aes_cbc :: "bytes \<Rightarrow> bytes \<Rightarrow> bytes \<Rightarrow> bytes"
  encode64 :: "bytes \<Rightarrow> string"
  serializeJs :: "(string \<times> string) list \<Rightarrow> string"
  renderStatic :: helmet_data
  hook_first :: bool

text \<open>
  The random source of \<^verbatim>\<open>forge.random\<close>: an endless tape of bytes and the position of the
  next unread one; a broken source reports an error instead.
\<close>

record rng =
  tape :: "nat \<Rightarrow> char"
  pos :: nat
  broken :: bool

record cipher =
  cipher_key :: bytes
  cipher_iv :: bytes
  cipher_input :: bytes

text \<open>
  What a handler can do to the outside: calls of \<^verbatim>\<open>res.status\<close> and \<^verbatim>\<open>res.send\<close>, and calls
  of the error callback that ExpressJS passes as the third argument. The handler of this file
  is declared with \<^verbatim>\<open>(req, res)\<close> only.
\<close>

datatype effect =
    Status nat
  | Send string
  | Next error

record handled =
  effects :: "effect list"
  outcome :: "unit promise"

section \<open>Server-side renderer: operations\<close>

definition omit :: "config \<Rightarrow> string \<Rightarrow> config" where
  "omit obj k = filter (\<lambda>(k', v). k' \<noteq> k) obj"

definition sanitizedConfig :: "config \<Rightarrow> config" where
  "sanitizedConfig conf = omit conf ''SECRET''"

text \<open>JavaScript's truthiness, as \<^verbatim>\<open>||\<close> and \<^verbatim>\<open>?:\<close> test it.\<close>

fun truthy :: "json \<Rightarrow> bool" where
  "truthy JNull = False"
| "truthy (JBool b) = b"
| "truthy (JNum n) = (n \<noteq> 0)"
| "truthy (JStr s) = (s \<noteq> [])"
| "truthy (JArr _) = True"
| "truthy (JObj _) = True"

definition getBuildInfo :: "libs \<Rightarrow> string \<Rightarrow> build_info promise" where
  "getBuildInfo L ctx =
     (case readFile L (path_resolve L ctx ''.build-info'') of
        None \<Rightarrow> Rejected BuildInfoMissing
      | Some info \<Rightarrow>
          (case JSON_parse L info of
             None \<Rightarrow> Uncaught BuildInfoCorrupt
           | Some b \<Rightarrow> Resolved b))"

definition getBytes :: "nat \<Rightarrow> rng \<Rightarrow> (error + bytes) \<times> rng" where
  "getBytes n R =
     (if broken R then (Inl CryptoBackendUnavailable, R)
      else (Inr (map (tape R) [pos R ..< pos R + n]), R\<lparr>pos := pos R + n\<rparr>))"

definition prepareCipher :: "bytes \<Rightarrow> rng \<Rightarrow> (error + cipher \<times> bytes) \<times> rng" where
  "prepareCipher k R =
     (case getBytes 32 R of
        (Inl err, R') \<Rightarrow> (Inl err, R')
      | (Inr iv, R') \<Rightarrow>
          (Inr (\<lparr>cipher_key = k, cipher_iv = iv, cipher_input = []\<rparr>, iv), R'))"

definition cipher_update :: "cipher \<Rightarrow> bytes \<Rightarrow> cipher" where
  "cipher_update c b = c\<lparr>cipher_input := cipher_input c @ b\<rparr>"

text \<open>\<^verbatim>\<open>cipher.output.data\<close> after \<^verbatim>\<open>cipher.finish()\<close>.\<close>

definition cipher_output :: "libs \<Rightarrow> cipher \<Rightarrow> bytes" where
  "cipher_output L c = aes_cbc L (cipher_key c) (cipher_iv c) (cipher_input c)"

text \<open>
  Lines 126 to 131. The data to inject is
  \<^verbatim>\<open>{ CONFIG: configToInject || sanitizedConfig, ISTATE: store ? store.getState() : null }\<close>;
  the envelope \<^verbatim>\<open>INJ\<close> is \<^verbatim>\<open>encode64\<close> of the initial vector followed by the output of the
  cipher, after it was fed the UTF-8 bytes of the JSON text of the data and finished.
\<close>

definition payload :: "config \<Rightarrow> hook_result \<Rightarrow> json" where
  "payload sanitized h =
     JObj [(''CONFIG'',
             (case configToInject h of
                None \<Rightarrow> JObj sanitized
              | Some c \<Rightarrow> if truthy c then c else JObj sanitized)),
           (''ISTATE'',
             (case store h of None \<Rightarrow> JNull | Some s \<Rightarrow> getState s))]"

definition envelope :: "libs \<Rightarrow> cipher \<Rightarrow> bytes \<Rightarrow> json \<Rightarrow> string" where
  "envelope L c iv p =
     encode64 L (iv @ cipher_output L
       (cipher_update c (createBuffer_utf8 L (JSON_stringify L p))))"

text \<open>Lines 103 to 119: the element built around \<^verbatim>\<open>options.Application\<close>, and \<^verbatim>\<open>helmet\<close>.\<close>

definition build_app ::
  "options \<Rightarrow> request \<Rightarrow> render_context \<Rightarrow> redux_store option \<Rightarrow> element option" where
  "build_app ops req ctx st =
     (case Application ops of
        None \<Rightarrow> None
      | Some A \<Rightarrow>
          (let App = StaticRouter ctx (url req) (Elem A)
           in Some (case st of None \<Rightarrow> App | Some s \<Rightarrow> Provider s App)))"

definition build_helmet :: "libs \<Rightarrow> options \<Rightarrow> helmet_data option" where
  "build_helmet L ops =
     (case Application ops of None \<Rightarrow> None | Some A \<Rightarrow> Some (renderStatic L))"

text \<open>
  A template literal prints an object through \<^verbatim>\<open>Object.prototype.toString\<close>, and an element
  has no \<^verbatim>\<open>toString\<close> of its own.
\<close>

fun element_to_string :: "element \<Rightarrow> string" where
  "element_to_string _ = ''[object Object]''"

text \<open>\<^verbatim>\<open>App || ''\<close>, printed.\<close>

definition root_markup :: "element option \<Rightarrow> string" where
  "root_markup App = (case App of None \<Rightarrow> [] | Some e \<Rightarrow> element_to_string e)"

definition chunk_link :: "string \<Rightarrow> string" where
  "chunk_link chunk =
     ''<link data-chunk=\"'' @ chunk @ ''\" href=\"/'' @ chunk @ ''.css\" rel=\"stylesheet\" />''"

definition styles :: "string list \<Rightarrow> string" where
  "styles cs = concat (map chunk_link cs)"

text \<open>The template literal. \<open>ln n s\<close> is a line break, \<open>n\<close> spaces and \<open>s\<close>.\<close>

definition ln :: "nat \<Rightarrow> string \<Rightarrow> string" where
  "ln n s = CHR 0x0A # replicate n (CHR '' '') @ s"

definition doc_head :: "helmet_data option \<Rightarrow> string \<Rightarrow> string \<Rightarrow> string" where
  "doc_head helmet pp sty =
     ''<!DOCTYPE html>''
     @ ln 6 ''<html>''
     @ ln 8 ''<head>''
     @ ln 10 (case helmet of None \<Rightarrow> [] | Some h \<Rightarrow> title h)
     @ ln 10 (case helmet of None \<Rightarrow> [] | Some h \<Rightarrow> meta h)
     @ ln 10 ''<link''
     @ ln 12 (''href=\"'' @ pp @ ''main.css\"'')
     @ ln 12 ''rel=\"stylesheet\"''
     @ ln 10 ''/>''
     @ ln 10 sty
     @ ln 10 ''<link rel=\"shortcut icon\" href=\"/favicon.ico\" />''
     @ ln 10 ''<meta charset=\"utf-8\" />''
     @ ln 10 ''<meta''
     @ ln 12 ''content=\"width=device-width,initial-scale=1.0\"''
     @ ln 12 ''name=\"viewport\"''
     @ ln 10 ''/>''
     @ ln 8 ''</head>''"

definition react_view :: "string \<Rightarrow> string" where
  "react_view app = ''<div id=\"react-view\">'' @ app @ ''</div>''"

definition inj_script :: "string \<Rightarrow> string \<Rightarrow> string" where
  "inj_script splits_js INJ =
     ''<script id=\"inj\" type=\"application/javascript\">''
     @ ln 12 (''window.SPLITS = '' @ splits_js)
     @ ln 12 (''window.INJ=\"'' @ INJ @ ''\"'')
     @ ln 10 ''</script>''"

definition polyfills_script :: "string \<Rightarrow> string" where
  "polyfills_script pp =
     ''<script''
     @ ln 12 (''src=\"'' @ pp @ ''polyfills.js\"'')
     @ ln 12 ''type=\"application/javascript\"''
     @ ln 10 ''></script>''"

definition main_script :: "string \<Rightarrow> string" where
  "main_script pp =
     ''<script''
     @ ln 12 (''src=\"'' @ pp @ ''main.js\" '')
     @ ln 12 ''type=\"application/javascript\"''
     @ ln 10 ''></script>''"

text \<open>\<^verbatim>\<open>extraScripts ? extraScripts.join('') : ''\<close>.\<close>

definition extras_markup :: "string list option \<Rightarrow> string" where
  "extras_markup ex = (case ex of None \<Rightarrow> [] | Some xs \<Rightarrow> concat xs)"

definition doc_tail :: "string" where
  "doc_tail = ln 8 ''</body>'' @ ln 6 ''</html>''"

definition document ::
  "helmet_data option \<Rightarrow> string \<Rightarrow> string \<Rightarrow> string \<Rightarrow> string \<Rightarrow> string
     \<Rightarrow> string list option \<Rightarrow> string" where
  "document helmet pp sty app splits_js INJ ex =
     doc_head helmet pp sty
     @ ln 8 ''<body>''
     @ ln 10 (react_view app)
     @ ln 10 (inj_script splits_js INJ)
     @ ln 10 (polyfills_script pp)
     @ ln 10 (extras_markup ex)
     @ ln 10 (main_script pp)
     @ doc_tail"

text \<open>
  Lines 133 to 176, for a context, the element, \<^verbatim>\<open>helmet\<close>, the envelope and the extra
  scripts: \<^verbatim>\<open>res.status\<close> when the context has a truthy status, then \<^verbatim>\<open>res.send\<close> of the
  document.
\<close>

definition assemble ::
  "libs \<Rightarrow> webpack_config \<Rightarrow> render_context \<Rightarrow> helmet_data option \<Rightarrow> element option
     \<Rightarrow> string \<Rightarrow> string list option \<Rightarrow> effect list" where
  "assemble L wp ctx helmet App INJ ex =
     (case status ctx of None \<Rightarrow> [] | Some s \<Rightarrow> if s = 0 then [] else [Status s])
     @ [Send (document helmet (publicPath wp) (styles (chunks ctx)) (root_markup App)
                (serializeJs L (splits ctx)) INJ ex)]"

text \<open>
  \<^verbatim>\<open>_.defaults(_.clone(options), { beforeRender: () => Promise.resolve({}) })\<close>, applied.
\<close>

definition run_hook :: "options \<Rightarrow> request \<Rightarrow> config \<Rightarrow> error + hook_result" where
  "run_hook ops req sanitized =
     (case beforeRender ops of
        None \<Rightarrow> Inr \<lparr>configToInject = None, extraScripts = None, store = None\<rparr>
      | Some f \<Rightarrow> f req sanitized)"

text \<open>
  The request handler, \<^verbatim>\<open>async (req, res) => ...\<close>, for the global \<^verbatim>\<open>config\<close>, the build
  information and the arguments of the factory. It starts the hook and the cipher, waits for
  both, and rejects when either does; otherwise it builds the element, encrypts the data and
  sends the document.
\<close>

definition handler ::
  "libs \<Rightarrow> config \<Rightarrow> build_info \<Rightarrow> webpack_config \<Rightarrow> options \<Rightarrow> request \<Rightarrow> rng
     \<Rightarrow> handled \<times> rng" where
  "handler L conf buildInfo wp ops req R =
     (let (c, R') = prepareCipher (key buildInfo) R
      in case (run_hook ops req (sanitizedConfig conf), c) of
           (Inl e1, Inl e2) \<Rightarrow>
             (\<lparr>effects = [], outcome = Rejected (if hook_first L then e1 else e2)\<rparr>, R')
         | (Inl e1, Inr _) \<Rightarrow> (\<lparr>effects = [], outcome = Rejected e1\<rparr>, R')
         | (Inr _, Inl e2) \<Rightarrow> (\<lparr>effects = [], outcome = Rejected e2\<rparr>, R')
         | (Inr h, Inr (ciph, iv)) \<Rightarrow>
             (let ctx = \<lparr>chunks = [], splits = [], status = None\<rparr>;
                  App = build_app ops req ctx (store h);
                  helmet = build_helmet L ops;
                  INJ = envelope L ciph iv (payload (sanitizedConfig conf) h)
              in (\<lparr>effects = assemble L wp ctx helmet App INJ (extraScripts h),
                    outcome = Resolved ()\<rparr>, R')))"

text \<open>
  The factory: it waits for the build information and resolves to the handler (and sets the
  global \<^verbatim>\<open>TRU_BUILD_INFO\<close>, the first component here).
\<close>

definition factory ::
  "libs \<Rightarrow> config \<Rightarrow> webpack_config \<Rightarrow> options
     \<Rightarrow> (build_info \<times> (request \<Rightarrow> rng \<Rightarrow> handled \<times> rng)) promise" where
  "factory L conf wp ops =
     (case getBuildInfo L (wp_context wp) of
        Rejected e \<Rightarrow> Rejected e
      | Uncaught e \<Rightarrow> Uncaught e
      | Resolved buildInfo \<Rightarrow> Resolved (buildInfo, handler L conf buildInfo wp ops))"

section \<open>Serving, and reading a response\<close>

text \<open>ExpressJS hands the requests to the middleware one after another.\<close>

fun serve ::
  "(request \<Rightarrow> rng \<Rightarrow> handled \<times> rng) \<Rightarrow> request list \<Rightarrow> rng \<Rightarrow> handled list \<times> rng" where
  "serve H [] R = ([], R)"
| "serve H (req # reqs) R =
     (let (h, R') = H req R; (hs, R'') = serve H reqs R' in (h # hs, R''))"

text \<open>The documents a response sent, and the errors it handed to an error callback.\<close>

fun sent :: "effect list \<Rightarrow> string list" where
  "sent [] = []"
| "sent (Send d # es) = d # sent es"
| "sent (_ # es) = sent es"

fun reported :: "effect list \<Rightarrow> error list" where
  "reported [] = []"
| "reported (Next e # es) = e # reported es"
| "reported (_ # es) = reported es"

text \<open>
  What follows the first occurrence of a piece of text, and whether another piece occurs
  after it.
\<close>

fun after_first :: "string \<Rightarrow> string \<Rightarrow> string option" where
  "after_first needle [] = (if needle = [] then Some [] else None)"
| "after_first needle (c # cs) =
     (if prefix needle (c # cs) then Some (drop (length needle) (c # cs))
      else after_first needle cs)"

definition appears_after :: "string \<Rightarrow> string \<Rightarrow> string \<Rightarrow> bool" where
  "appears_after a b doc =
     (case after_first a doc of None \<Rightarrow> False | Some rest \<Rightarrow> sublist b rest)"


section \<open>Test doubles\<close>

text \<open>
  Stand-ins for the libraries and the surroundings, as the repository's tests mock them, to
  run the definitions on concrete inputs.
\<close>

definition mock_build_info :: build_info where
  "mock_build_info = \<lparr>timestamp = ''2019-11-29'', key = ''0123456789abcdef0123456789abcdef''\<rparr>"

text \<open>A small printer for the data to inject, and one for the splits.\<close>

primrec show_json :: "json \<Rightarrow> string" where
  "show_json JNull = ''null''"
| "show_json (JBool b) = (if b then ''true'' else ''false'')"
| "show_json (JNum n) = (if n = 0 then ''0'' else ''1'')"
| "show_json (JStr s) = ''\"'' @ s @ ''\"''"
| "show_json (JArr xs) = ''['' @ concat (map (\<lambda>s. s @ '','') (map show_json xs)) @ '']''"
| "show_json (JObj kvs) =
     ''{'' @ concat (map (\<lambda>(k, s). ''\"'' @ k @ ''\":'' @ s @ '','')
                     (map (map_prod (\<lambda>k. k) show_json) kvs)) @ ''}''"

definition show_splits :: "(string \<times> string) list \<Rightarrow> string" where
  "show_splits sp = ''{'' @ concat (map (\<lambda>(k, v). ''\"'' @ k @ ''\":\"'' @ v @ ''\",'') sp) @ ''}''"

definition mock_libs :: libs where
  "mock_libs =
     \<lparr>path_resolve = (\<lambda>dir name. dir @ ''/'' @ name),
      readFile = (\<lambda>p. if p = ''/test_data/.build-info'' then Some ''{build}'' else None),
      JSON_parse = (\<lambda>s. if s = ''{build}'' then Some mock_build_info else None),
      JSON_stringify = show_json,
      createBuffer_utf8 = (\<lambda>s. s),
      aes_cbc = (\<lambda>k iv p. rev p @ take 4 iv @ take 4 k),
      encode64 = (\<lambda>b. b),
      serializeJs = show_splits,
      renderStatic = \<lparr>title = ''<title>Test</title>'', meta = ''<meta name=\"a\" />''\<rparr>,
      hook_first = True\<rparr>"

definition mock_wp :: webpack_config where
  "mock_wp = \<lparr>wp_context = ''/test_data'', publicPath = ''/test/public/path/''\<rparr>"

definition mock_config :: config where
  "mock_config = [(''API'', JStr ''https://api''), (''SECRET'', JStr ''s3cr3t'')]"

definition mock_req :: request where
  "mock_req = \<lparr>url = ''/''\<rparr>"

definition mock_rng :: rng where
  "mock_rng =
     \<lparr>tape = (\<lambda>n. if n < 32 then CHR ''a'' else if n < 64 then CHR ''b'' else CHR ''c''),
      pos = 0, broken = False\<rparr>"

definition mock_options :: options where
  "mock_options = \<lparr>Application = None, beforeRender = None, maxSsrRounds = None\<rparr>"

text \<open>A hook that asks for one extra script, and one whose promise rejects.\<close>

definition mock_extra_script :: string where
  "mock_extra_script = ''<script src=\"/extra.js\"></script>''"

definition mock_hook_extra :: "request \<Rightarrow> config \<Rightarrow> error + hook_result" where
  "mock_hook_extra req conf =
     Inr \<lparr>configToInject = None, extraScripts = Some [mock_extra_script], store = None\<rparr>"

definition mock_hook_rejecting :: "request \<Rightarrow> config \<Rightarrow> error + hook_result" where
  "mock_hook_rejecting req conf = Inl (HookRejected ''no session'')"


section \<open>Facts about the handler and the template\<close>

lemma ln_split: "ln n s = ln n [] @ s"
  by (simp add: ln_def)

text \<open>When the hook resolves and the random source works, the handler sends one document.\<close>

lemma handler_success:
  assumes "run_hook ops req (sanitizedConfig conf) = Inr h" and "\<not> broken R"
  shows "handler L conf bi wp ops req R =
     (\<lparr>effects =
         [Send (document (build_helmet L ops) (publicPath wp) []
            (root_markup (build_app ops req \<lparr>chunks = [], splits = [], status = None\<rparr> (store h)))
            (serializeJs L [])
            (envelope L
               \<lparr>cipher_key = key bi, cipher_iv = map (tape R) [pos R ..< pos R + 32],
                cipher_input = []\<rparr>
               (map (tape R) [pos R ..< pos R + 32]) (payload (sanitizedConfig conf) h))
            (extraScripts h))],
       outcome = Resolved ()\<rparr>,
      R\<lparr>pos := pos R + 32\<rparr>)"
  using assms
  by (simp add: handler_def prepareCipher_def getBytes_def assemble_def styles_def)

lemma handler_rng:
  "\<not> broken R \<Longrightarrow> snd (handler L conf bi wp ops req R) = R\<lparr>pos := pos R + 32\<rparr>"
  by (simp add: handler_def prepareCipher_def getBytes_def Let_def split: sum.splits prod.splits)



lemma inj_script_INJ:
  "sublist (''window.INJ=\"'' @ INJ @ ''\"'') (inj_script sj INJ)"
proof -
  have "inj_script sj INJ =
      (''<script id=\"inj\" type=\"application/javascript\">''
       @ ln 12 (''window.SPLITS = '' @ sj) @ ln 12 [])
      @ (''window.INJ=\"'' @ INJ @ ''\"'') @ ln 10 ''</script>''"
    unfolding inj_script_def by (subst (2) ln_split) simp
  then show ?thesis by (metis sublist_appendI)
qed

lemma document_inj_script:
  "sublist (inj_script sj INJ) (document helmet pp sty app sj INJ ex)"
proof -
  have "document helmet pp sty app sj INJ ex =
      (doc_head helmet pp sty @ ln 8 ''<body>'' @ ln 10 (react_view app) @ ln 10 [])
      @ inj_script sj INJ
      @ (ln 10 (polyfills_script pp) @ ln 10 (extras_markup ex)
         @ ln 10 (main_script pp) @ doc_tail)"
    unfolding document_def by (subst (3) ln_split) simp
  then show ?thesis by (metis sublist_appendI)
qed



lemma handler_cong:
  assumes "run_hook ops req (sanitizedConfig conf) = run_hook ops' req (sanitizedConfig conf')"
    and "sanitizedConfig conf = sanitizedConfig conf'"
    and "Application ops = Application ops'"
  shows "handler L conf bi wp ops req R = handler L conf' bi wp ops' req R"
  using assms
  by (auto simp: handler_def build_app_def build_helmet_def Let_def
        split: prod.splits sum.splits)

lemma after_first_append: "\<exists>q. after_first a (P @ a @ T) = Some (q @ T)"
proof (induction P)
  case Nil
  show ?case
  proof (cases "a @ T")
    case Nil
    then show ?thesis by simp
  next
    case (Cons c cs)
    then have "after_first a (a @ T) = Some (drop (length a) (a @ T))"
      by (metis after_first.simps(2) prefixI)
    then show ?thesis by simp
  qed
next
  case (Cons p P)
  show ?case
  proof (cases "prefix a (p # P @ a @ T)")
    case True
    then have "after_first a ((p # P) @ a @ T) = Some (drop (length a) ((p # P @ a) @ T))"
      by simp
    also have "drop (length a) ((p # P @ a) @ T)
        = drop (length a) (p # P @ a) @ drop (length a - length (p # P @ a)) T"
      by (rule drop_append)
    also have "drop (length a - length (p # P @ a)) T = T"
      by simp
    finally show ?thesis by blast
  next
    case False
    then have "after_first a ((p # P) @ a @ T) = after_first a (P @ a @ T)"
      by simp
    with Cons.IH show ?thesis by simp
  qed
qed

lemma after_first_Some: "after_first a doc = Some rest \<Longrightarrow> \<exists>P. doc = P @ a @ rest"
proof (induction doc)
  case Nil
  then show ?case by (simp split: if_splits)
next
  case (Cons c cs)
  show ?case
  proof (cases "prefix a (c # cs)")
    case True
    then have "rest = drop (length a) (c # cs)" using Cons.prems by simp
    moreover from True have "c # cs = a @ drop (length a) (c # cs)"
      by (metis append_eq_conv_conj prefixE)
    ultimately have "c # cs = [] @ a @ rest" by simp
    then show ?thesis by blast
  next
    case False
    then have "after_first a cs = Some rest" using Cons.prems by simp
    then obtain P where "cs = P @ a @ rest" using Cons.IH by blast
    then have "c # cs = (c # P) @ a @ rest" by simp
    then show ?thesis by blast
  qed
qed

lemma appears_after_iff:
  "appears_after a b doc \<longleftrightarrow> (\<exists>P T. doc = P @ a @ T \<and> sublist b T)"
proof
  assume "appears_after a b doc"
  then obtain rest where r: "after_first a doc = Some rest" and s: "sublist b rest"
    by (auto simp: appears_after_def split: option.splits)
  from after_first_Some [OF r] s show "\<exists>P T. doc = P @ a @ T \<and> sublist b T" by blast
next
  assume "\<exists>P T. doc = P @ a @ T \<and> sublist b T"
  then obtain P T where d: "doc = P @ a @ T" and s: "sublist b T" by blast
  obtain q where "after_first a doc = Some (q @ T)"
    using after_first_append d by blast
  moreover have "sublist b (q @ T)" using s by (metis sublist_append)
  ultimately show "appears_after a b doc" by (simp add: appears_after_def)
qed

lemma appears_afterI: "doc = P @ a @ M @ b @ S \<Longrightarrow> appears_after a b doc"
  unfolding appears_after_iff by (metis sublist_appendI)

lemma document_parts:
  "document helmet pp sty app sj INJ ex =
     (doc_head helmet pp sty @ ln 8 ''<body>'' @ ln 10 []) @ react_view app
     @ ln 10 [] @ inj_script sj INJ
     @ ln 10 [] @ polyfills_script pp
     @ ln 10 [] @ extras_markup ex
     @ ln 10 [] @ main_script pp
     @ doc_tail"
  unfolding document_def
  by (subst (2) ln_split, subst (3) ln_split, subst (4) ln_split, subst (5) ln_split,
      subst (6) ln_split) simp

lemma serve_nth:
  "\<not> broken R \<Longrightarrow> i < length reqs \<Longrightarrow>
     fst (serve (handler L conf bi wp ops) reqs R) ! i
       = fst (handler L conf bi wp ops (reqs ! i) (R\<lparr>pos := pos R + 32 * i\<rparr>))"
proof (induction reqs arbitrary: R i)
  case Nil
  then show ?case by simp
next
  case (Cons req reqs)
  let ?R' = "R\<lparr>pos := pos R + 32\<rparr>"
  have R': "snd (handler L conf bi wp ops req R) = ?R'"
    using Cons.prems(1) by (rule handler_rng)
  show ?case
  proof (cases i)
    case 0
    then show ?thesis by (simp add: split_beta)
  next
    case (Suc j)
    have "\<not> broken ?R'" using Cons.prems(1) by simp
    moreover have "j < length reqs" using Cons.prems(2) Suc by simp
    ultimately have "fst (serve (handler L conf bi wp ops) reqs ?R') ! j
        = fst (handler L conf bi wp ops (reqs ! j) (?R'\<lparr>pos := pos ?R' + 32 * j\<rparr>))"
      by (rule Cons.IH)
    then show ?thesis using Suc R' by (simp add: split_beta add.assoc)
  qed
qed

lemma map_of_omit:
  "k \<noteq> k' \<Longrightarrow> map_of (omit obj k') k = map_of obj k"
  by (induction obj) (auto simp: omit_def)

lemma omit_keys: "k \<notin> fst ` set (omit obj k)"
  by (auto simp: omit_def)

lemma reported_assemble: "reported (assemble L wp ctx helmet App INJ ex) = []"
  by (simp add: assemble_def split: option.splits)

lemma handler_failure:
  assumes "(\<exists>e. run_hook ops req (sanitizedConfig conf) = Inl e) \<or> broken R"
  shows "(\<exists>e. outcome (fst (handler L conf bi wp ops req R)) = Rejected e)
     \<and> effects (fst (handler L conf bi wp ops req R)) = []"
  using assms
  by (auto simp: handler_def prepareCipher_def getBytes_def Let_def
        split: prod.splits sum.splits)

lemma handler_reported: "reported (effects (fst (handler L conf bi wp ops req R))) = []"
  by (auto simp: handler_def Let_def reported_assemble split: prod.splits sum.splits)

lemma handler_outcome:
  "outcome (fst (handler L conf bi wp ops req R)) \<noteq> Resolved () \<Longrightarrow>
     effects (fst (handler L conf bi wp ops req R)) = []"
  by (auto simp: handler_def Let_def split: prod.splits sum.splits)

lemma chunk_link_sublist: "c \<in> set cs \<Longrightarrow> sublist (chunk_link c) (styles cs)"
proof -
  assume "c \<in> set cs"
  then obtain ys zs where "cs = ys @ c # zs" by (meson split_list)
  then have "styles cs = concat (map chunk_link ys) @ chunk_link c @ concat (map chunk_link zs)"
    by (simp add: styles_def)
  then show ?thesis by (metis sublist_appendI)
qed




lemma handler_hook_rejects:
  "run_hook ops req (sanitizedConfig conf) = Inl e \<Longrightarrow> \<not> broken R \<Longrightarrow>
     fst (handler L conf bi wp ops req R) = \<lparr>effects = [], outcome = Rejected e\<rparr>"
  by (simp add: handler_def prepareCipher_def getBytes_def)

lemma handler_source_broken:
  "run_hook ops req (sanitizedConfig conf) = Inr h \<Longrightarrow> broken R \<Longrightarrow>
     fst (handler L conf bi wp ops req R)
       = \<lparr>effects = [], outcome = Rejected CryptoBackendUnavailable\<rparr>"
  by (simp add: handler_def prepareCipher_def getBytes_def)

lemma handler_both_fail:
  "run_hook ops req (sanitizedConfig conf) = Inl e \<Longrightarrow> broken R \<Longrightarrow>
     fst (handler L conf bi wp ops req R)
       = \<lparr>effects = [],
          outcome = Rejected (if hook_first L then e else CryptoBackendUnavailable)\<rparr>"
  by (simp add: handler_def prepareCipher_def getBytes_def)

section \<open>The build information\<close>

text \<open>
  Claim C7. Loading the build information fails with \<open>BuildInfoMissing\<close> when the file is
  absent at \<^verbatim>\<open>.build-info\<close> under the Webpack context (the promise rejects with the error of
  the read), and with \<open>BuildInfoCorrupt\<close> when it is there and is not valid JSON (the parser
  throws inside the callback of the read, so the promise is never settled). In both cases the
  factory fails the same way and does not resolve to a request handler.
\<close>

theorem getBuildInfo_failures:
  "(readFile L (path_resolve L (wp_context wp) ''.build-info'') = None \<longrightarrow>
      getBuildInfo L (wp_context wp) = Rejected BuildInfoMissing
      \<and> factory L conf wp ops = Rejected BuildInfoMissing
      \<and> (\<forall>h. factory L conf wp ops \<noteq> Resolved h))
   \<and> (readFile L (path_resolve L (wp_context wp) ''.build-info'') = Some info
        \<and> JSON_parse L info = None \<longrightarrow>
      getBuildInfo L (wp_context wp) = Uncaught BuildInfoCorrupt
      \<and> factory L conf wp ops = Uncaught BuildInfoCorrupt
      \<and> (\<forall>h. factory L conf wp ops \<noteq> Resolved h))"
  by (simp add: getBuildInfo_def factory_def)

theorem getBuildInfo_failures_witness:
  "readFile (mock_libs\<lparr>readFile := \<lambda>p. None\<rparr>)
      (path_resolve (mock_libs\<lparr>readFile := \<lambda>p. None\<rparr>) (wp_context mock_wp) ''.build-info'')
     = None
   \<and> factory (mock_libs\<lparr>readFile := \<lambda>p. None\<rparr>) mock_config mock_wp mock_options
       = Rejected BuildInfoMissing
   \<and> readFile (mock_libs\<lparr>readFile := \<lambda>p. Some ''<html>''\<rparr>)
      (path_resolve (mock_libs\<lparr>readFile := \<lambda>p. Some ''<html>''\<rparr>) (wp_context mock_wp)
         ''.build-info'')
       = Some ''<html>''
   \<and> JSON_parse (mock_libs\<lparr>readFile := \<lambda>p. Some ''<html>''\<rparr>) ''<html>'' = None
   \<and> factory (mock_libs\<lparr>readFile := \<lambda>p. Some ''<html>''\<rparr>) mock_config mock_wp mock_options
       = Uncaught BuildInfoCorrupt"
  using getBuildInfo_failures [where L = "mock_libs\<lparr>readFile := \<lambda>p. None\<rparr>" and wp = mock_wp
          and conf = mock_config and ops = mock_options]
        getBuildInfo_failures [where L = "mock_libs\<lparr>readFile := \<lambda>p. Some ''<html>''\<rparr>"
          and wp = mock_wp and conf = mock_config and ops = mock_options and info = "''<html>''"]
  by (simp add: mock_libs_def)

section \<open>The document without an application\<close>



section \<open>The envelope\<close>

text \<open>
  Claim C2. For a request whose hook resolves (and with the random source working), the
  envelope string that the document sets \<^verbatim>\<open>window.INJ\<close> to is the base64 encoding of the
  initial vector followed by the AES-CBC output, under the key of the build information and
  that vector, for the UTF-8 bytes of the JSON text of the data to inject. The vector is 32
  bytes read from the random source by this very call: the call moves the source 32 bytes on,
  so that, of the requests served one after another, request \<open>i\<close> runs on the source 32 * \<open>i\<close>
  bytes further and no part of the tape is read for two requests.
\<close>

theorem envelope_fresh_iv:
  assumes "run_hook ops req (sanitizedConfig conf) = Inr h" and "\<not> broken R"
  shows "\<exists>iv doc.
       iv = map (tape R) [pos R ..< pos R + 32] \<and> length iv = 32
     \<and> effects (fst (handler L conf bi wp ops req R)) = [Send doc]
     \<and> sublist (''window.INJ=\"''
          @ encode64 L (iv @ aes_cbc L (key bi) iv
              (createBuffer_utf8 L (JSON_stringify L (payload (sanitizedConfig conf) h))))
          @ ''\"'') doc
     \<and> snd (handler L conf bi wp ops req R) = R\<lparr>pos := pos R + 32\<rparr>
     \<and> (\<forall>i < length reqs.
          fst (serve (handler L conf bi wp ops) reqs R) ! i
            = fst (handler L conf bi wp ops (reqs ! i) (R\<lparr>pos := pos R + 32 * i\<rparr>)))"
proof -
  let ?iv = "map (tape R) [pos R ..< pos R + 32]"
  let ?INJ = "encode64 L (?iv @ aes_cbc L (key bi) ?iv
              (createBuffer_utf8 L (JSON_stringify L (payload (sanitizedConfig conf) h))))"
  have env: "envelope L \<lparr>cipher_key = key bi, cipher_iv = ?iv, cipher_input = []\<rparr> ?iv
                (payload (sanitizedConfig conf) h) = ?INJ"
    by (simp add: envelope_def cipher_output_def cipher_update_def)
  let ?doc = "document (build_helmet L ops) (publicPath wp) []
            (root_markup (build_app ops req \<lparr>chunks = [], splits = [], status = None\<rparr> (store h)))
            (serializeJs L []) ?INJ (extraScripts h)"
  have run: "handler L conf bi wp ops req R
      = (\<lparr>effects = [Send ?doc], outcome = Resolved ()\<rparr>, R\<lparr>pos := pos R + 32\<rparr>)"
    using handler_success [OF assms, of L bi wp] by (simp only: env)
  have inj: "sublist (''window.INJ=\"'' @ ?INJ @ ''\"'') ?doc"
    using inj_script_INJ document_inj_script sublist_order.order_trans by blast
  have srv: "\<forall>i < length reqs.
          fst (serve (handler L conf bi wp ops) reqs R) ! i
            = fst (handler L conf bi wp ops (reqs ! i) (R\<lparr>pos := pos R + 32 * i\<rparr>))"
    using assms(2) by (simp add: serve_nth)
  show ?thesis
    using run inj srv by simp
qed

theorem envelope_fresh_iv_witness:
  "run_hook mock_options mock_req (sanitizedConfig mock_config)
       = Inr \<lparr>configToInject = None, extraScripts = None, store = None\<rparr>
   \<and> \<not> broken mock_rng
   \<and> (1::nat) < length [mock_req, mock_req\<lparr>url := ''/about''\<rparr>]
   \<and> map (tape mock_rng) [pos mock_rng ..< pos mock_rng + 32]
       \<noteq> map (tape (mock_rng\<lparr>pos := pos mock_rng + 32 * 1\<rparr>))
           [pos (mock_rng\<lparr>pos := pos mock_rng + 32 * 1\<rparr>)
              ..< pos (mock_rng\<lparr>pos := pos mock_rng + 32 * 1\<rparr>) + 32]
   \<and> (\<exists>iv doc.
       iv = map (tape mock_rng) [pos mock_rng ..< pos mock_rng + 32] \<and> length iv = 32
     \<and> effects (fst (handler mock_libs mock_config mock_build_info mock_wp mock_options
          mock_req mock_rng)) = [Send doc]
     \<and> sublist (''window.INJ=\"''
          @ encode64 mock_libs (iv @ aes_cbc mock_libs (key mock_build_info) iv
              (createBuffer_utf8 mock_libs (JSON_stringify mock_libs
                 (payload (sanitizedConfig mock_config)
                    \<lparr>configToInject = None, extraScripts = None, store = None\<rparr>))))
          @ ''\"'') doc
     \<and> snd (handler mock_libs mock_config mock_build_info mock_wp mock_options mock_req
          mock_rng) = mock_rng\<lparr>pos := pos mock_rng + 32\<rparr>
     \<and> (\<forall>i < length [mock_req, mock_req\<lparr>url := ''/about''\<rparr>].
          fst (serve (handler mock_libs mock_config mock_build_info mock_wp mock_options)
                 [mock_req, mock_req\<lparr>url := ''/about''\<rparr>] mock_rng) ! i
            = fst (handler mock_libs mock_config mock_build_info mock_wp mock_options
                 ([mock_req, mock_req\<lparr>url := ''/about''\<rparr>] ! i)
                 (mock_rng\<lparr>pos := pos mock_rng + 32 * i\<rparr>))))"
proof -
  have a: "run_hook mock_options mock_req (sanitizedConfig mock_config)
       = Inr \<lparr>configToInject = None, extraScripts = None, store = None\<rparr>"
    by (simp add: run_hook_def mock_options_def)
  have b: "\<not> broken mock_rng"
    by (simp add: mock_rng_def)
  have c: "(1::nat) < length [mock_req, mock_req\<lparr>url := ''/about''\<rparr>]"
    by simp
  have d: "map (tape mock_rng) [pos mock_rng ..< pos mock_rng + 32]
       \<noteq> map (tape (mock_rng\<lparr>pos := pos mock_rng + 32 * 1\<rparr>))
           [pos (mock_rng\<lparr>pos := pos mock_rng + 32 * 1\<rparr>)
              ..< pos (mock_rng\<lparr>pos := pos mock_rng + 32 * 1\<rparr>) + 32]"
    by (simp add: mock_rng_def upt_rec)
  show ?thesis
    by (intro conjI a b c d envelope_fresh_iv [OF a b])
qed

section \<open>The secret of the configuration\<close>

text \<open>
  Claim C9. The configuration handed to the \<^verbatim>\<open>beforeRender\<close> hook is the global one without
  its \<^verbatim>\<open>SECRET\<close> key: it has no such key and agrees with the global one on every other, and
  the handler depends on the hook only through what it answers for the request and that
  configuration. When the hook supplies no \<^verbatim>\<open>configToInject\<close>, the \<^verbatim>\<open>CONFIG\<close> field of the
  data to encrypt is that same configuration. So two global configurations that differ in
  \<^verbatim>\<open>SECRET\<close> only give the same response: the secret has no influence on the document.
\<close>

theorem secret_never_injected:
  "''SECRET'' \<notin> fst ` set (sanitizedConfig conf)
   \<and> (\<forall>k. k \<noteq> ''SECRET'' \<longrightarrow> map_of (sanitizedConfig conf) k = map_of conf k)
   \<and> (f req (sanitizedConfig conf) = g req (sanitizedConfig conf) \<longrightarrow>
        handler L conf bi wp (ops\<lparr>beforeRender := Some f\<rparr>) req R
          = handler L conf bi wp (ops\<lparr>beforeRender := Some g\<rparr>) req R)
   \<and> (run_hook ops req (sanitizedConfig conf) = Inr h \<and> configToInject h = None \<longrightarrow>
        payload (sanitizedConfig conf) h
          = JObj [(''CONFIG'', JObj (sanitizedConfig conf)),
                  (''ISTATE'', case store h of None \<Rightarrow> JNull | Some s \<Rightarrow> getState s)])
   \<and> (omit conf ''SECRET'' = omit conf' ''SECRET'' \<longrightarrow>
        handler L conf bi wp ops req R = handler L conf' bi wp ops req R)"
proof (intro conjI)
  show "''SECRET'' \<notin> fst ` set (sanitizedConfig conf)"
    unfolding sanitizedConfig_def by (rule omit_keys)
  show "\<forall>k. k \<noteq> ''SECRET'' \<longrightarrow> map_of (sanitizedConfig conf) k = map_of conf k"
    unfolding sanitizedConfig_def using map_of_omit by blast
  show "f req (sanitizedConfig conf) = g req (sanitizedConfig conf) \<longrightarrow>
        handler L conf bi wp (ops\<lparr>beforeRender := Some f\<rparr>) req R
          = handler L conf bi wp (ops\<lparr>beforeRender := Some g\<rparr>) req R"
    by (auto intro!: handler_cong simp: run_hook_def)
  show "run_hook ops req (sanitizedConfig conf) = Inr h \<and> configToInject h = None \<longrightarrow>
        payload (sanitizedConfig conf) h
          = JObj [(''CONFIG'', JObj (sanitizedConfig conf)),
                  (''ISTATE'', case store h of None \<Rightarrow> JNull | Some s \<Rightarrow> getState s)]"
    by (simp add: payload_def)
  show "omit conf ''SECRET'' = omit conf' ''SECRET'' \<longrightarrow>
        handler L conf bi wp ops req R = handler L conf' bi wp ops req R"
    by (auto intro!: handler_cong simp: sanitizedConfig_def)
qed

theorem secret_never_injected_witness:
  "(\<lambda>r c. Inr \<lparr>configToInject = None, extraScripts = None, store = None\<rparr>) mock_req
       (sanitizedConfig mock_config)
     = (\<lambda>r c. if c = [(''API'', JStr ''https://api'')]
            then Inr \<lparr>configToInject = None, extraScripts = None, store = None\<rparr>
            else Inl (HookRejected ''secret seen'')) mock_req (sanitizedConfig mock_config)
   \<and> run_hook mock_options mock_req (sanitizedConfig mock_config)
       = Inr \<lparr>configToInject = None, extraScripts = None, store = None\<rparr>
   \<and> configToInject \<lparr>configToInject = None, extraScripts = None, store = None\<rparr> = None
   \<and> omit mock_config ''SECRET''
       = omit [(''SECRET'', JStr ''another''), (''API'', JStr ''https://api'')] ''SECRET''
   \<and> mock_config \<noteq> [(''SECRET'', JStr ''another''), (''API'', JStr ''https://api'')]
   \<and> sanitizedConfig mock_config = [(''API'', JStr ''https://api'')]
   \<and> payload (sanitizedConfig mock_config)
         \<lparr>configToInject = None, extraScripts = None, store = None\<rparr>
       = JObj [(''CONFIG'', JObj [(''API'', JStr ''https://api'')]), (''ISTATE'', JNull)]
   \<and> handler mock_libs mock_config mock_build_info mock_wp mock_options mock_req mock_rng
       = handler mock_libs [(''SECRET'', JStr ''another''), (''API'', JStr ''https://api'')]
           mock_build_info mock_wp mock_options mock_req mock_rng"
proof -
  have s: "sanitizedConfig mock_config = [(''API'', JStr ''https://api'')]"
    by (simp add: sanitizedConfig_def omit_def mock_config_def)
  have a: "(\<lambda>r c. Inr \<lparr>configToInject = None, extraScripts = None, store = None\<rparr>) mock_req
       (sanitizedConfig mock_config)
     = (\<lambda>(r::request) c. if c = [(''API'', JStr ''https://api'')]
            then Inr \<lparr>configToInject = None, extraScripts = None, store = None\<rparr>
            else Inl (HookRejected ''secret seen'')) mock_req (sanitizedConfig mock_config)"
    by (simp add: s)
  have b: "run_hook mock_options mock_req (sanitizedConfig mock_config)
       = Inr \<lparr>configToInject = None, extraScripts = None, store = None\<rparr>"
    by (simp add: run_hook_def mock_options_def)
  have c: "omit mock_config ''SECRET''
       = omit [(''SECRET'', JStr ''another''), (''API'', JStr ''https://api'')] ''SECRET''"
    by (simp add: omit_def mock_config_def)
  have d: "mock_config \<noteq> [(''SECRET'', JStr ''another''), (''API'', JStr ''https://api'')]"
    by (simp add: mock_config_def)
  show ?thesis
    using secret_never_injected [where conf = mock_config
        and conf' = "[(''SECRET'', JStr ''another''), (''API'', JStr ''https://api'')]"
        and ops = mock_options and req = mock_req
        and h = "\<lparr>configToInject = None, extraScripts = None, store = None\<rparr>"
        and L = mock_libs and bi = mock_build_info and wp = mock_wp and R = mock_rng]
      a b c d s
    by simp
qed

section \<open>Assembling the document\<close>

text \<open>
  Claim C8. The assembly of the document is a function of its inputs alone: the root markup,
  the chunk names, the serialized splits, the status of the context, the envelope string, the
  public path, the head metadata and the extra scripts. Whatever else differs (the other
  libraries, the rest of the Webpack configuration, the shape of the element), equal inputs
  give the same calls on the response, with the same, one, document.
\<close>

theorem assemble_deterministic:
  assumes "publicPath wp = publicPath wp'"
    and "chunks ctx = chunks ctx'"
    and "status ctx = status ctx'"
    and "serializeJs L (splits ctx) = serializeJs L' (splits ctx')"
    and "root_markup App = root_markup App'"
  shows "assemble L wp ctx helmet App INJ ex = assemble L' wp' ctx' helmet App' INJ ex
     \<and> sent (assemble L wp ctx helmet App INJ ex)
         = [document helmet (publicPath wp) (styles (chunks ctx)) (root_markup App)
              (serializeJs L (splits ctx)) INJ ex]"
  using assms by (simp add: assemble_def split: option.splits)

theorem assemble_deterministic_witness:
  "publicPath mock_wp = publicPath (mock_wp\<lparr>wp_context := ''/elsewhere''\<rparr>)
   \<and> chunks \<lparr>chunks = [''a''], splits = [(''a'', ''<p>a</p>'')], status = None\<rparr>
       = chunks \<lparr>chunks = [''a''], splits = [(''a'', ''<p>a</p>'')], status = None\<rparr>
   \<and> status \<lparr>chunks = [''a''], splits = [(''a'', ''<p>a</p>'')], status = None\<rparr>
       = status \<lparr>chunks = [''a''], splits = [(''a'', ''<p>a</p>'')], status = None\<rparr>
   \<and> serializeJs mock_libs
         (splits \<lparr>chunks = [''a''], splits = [(''a'', ''<p>a</p>'')], status = None\<rparr>)
       = serializeJs (mock_libs\<lparr>hook_first := False\<rparr>)
           (splits \<lparr>chunks = [''a''], splits = [(''a'', ''<p>a</p>'')], status = None\<rparr>)
   \<and> root_markup (Some (Elem ''Scene''))
       = root_markup (Some (Provider \<lparr>getState = JNull\<rparr> (Elem ''Scene'')))
   \<and> assemble mock_libs mock_wp
         \<lparr>chunks = [''a''], splits = [(''a'', ''<p>a</p>'')], status = None\<rparr> None
         (Some (Elem ''Scene'')) ''envelope'' None
       = assemble (mock_libs\<lparr>hook_first := False\<rparr>) (mock_wp\<lparr>wp_context := ''/elsewhere''\<rparr>)
           \<lparr>chunks = [''a''], splits = [(''a'', ''<p>a</p>'')], status = None\<rparr> None
           (Some (Provider \<lparr>getState = JNull\<rparr> (Elem ''Scene''))) ''envelope'' None"
proof -
  have a: "publicPath mock_wp = publicPath (mock_wp\<lparr>wp_context := ''/elsewhere''\<rparr>)"
    by simp
  have b: "chunks \<lparr>chunks = [''a''], splits = [(''a'', ''<p>a</p>'')], status = None\<rparr>
       = chunks \<lparr>chunks = [''a''], splits = [(''a'', ''<p>a</p>'')], status = None\<rparr>"
    by simp
  have c: "status \<lparr>chunks = [''a''], splits = [(''a'', ''<p>a</p>'')], status = None\<rparr>
       = status \<lparr>chunks = [''a''], splits = [(''a'', ''<p>a</p>'')], status = None\<rparr>"
    by simp
  have d: "serializeJs mock_libs
         (splits \<lparr>chunks = [''a''], splits = [(''a'', ''<p>a</p>'')], status = None\<rparr>)
       = serializeJs (mock_libs\<lparr>hook_first := False\<rparr>)
           (splits \<lparr>chunks = [''a''], splits = [(''a'', ''<p>a</p>'')], status = None\<rparr>)"
    by (simp add: mock_libs_def)
  have e: "root_markup (Some (Elem ''Scene''))
       = root_markup (Some (Provider \<lparr>getState = JNull\<rparr> (Elem ''Scene'')))"
    by (simp add: root_markup_def)
  from assemble_deterministic [OF a b c d e, of None "''envelope''" None]
  show ?thesis by (intro conjI a b c d e) simp
qed

section \<open>The number of rendering rounds\<close>

text \<open>
  Claim C3, as the code has it. The handler does not read \<^verbatim>\<open>maxSsrRounds\<close>: whatever its
  value, 0 included, the response is the one without it. With \<^verbatim>\<open>options.Application\<close> absent
  (and the hook resolving and the random source working) the document sent for
  \<^verbatim>\<open>maxSsrRounds = 0\<close> has no head metadata and an empty root div: only the scaffold.
\<close>

theorem maxSsrRounds_not_read:
  "handler L conf bi wp (ops\<lparr>maxSsrRounds := m\<rparr>) req R = handler L conf bi wp ops req R
   \<and> (Application ops = None \<and> run_hook ops req (sanitizedConfig conf) = Inr h \<and> \<not> broken R
        \<longrightarrow> (\<exists>INJ. effects (fst (handler L conf bi wp (ops\<lparr>maxSsrRounds := Some 0\<rparr>) req R))
              = [Send (document None (publicPath wp) [] [] (serializeJs L []) INJ
                         (extraScripts h))]))"
proof (intro conjI impI)
  show same: "handler L conf bi wp (ops\<lparr>maxSsrRounds := m\<rparr>) req R
      = handler L conf bi wp ops req R" for m
    by (rule handler_cong) (simp_all add: run_hook_def)
  assume a: "Application ops = None \<and> run_hook ops req (sanitizedConfig conf) = Inr h
      \<and> \<not> broken R"
  then have "effects (fst (handler L conf bi wp ops req R))
      = [Send (document None (publicPath wp) [] [] (serializeJs L [])
           (envelope L
               \<lparr>cipher_key = key bi, cipher_iv = map (tape R) [pos R ..< pos R + 32],
                cipher_input = []\<rparr>
               (map (tape R) [pos R ..< pos R + 32]) (payload (sanitizedConfig conf) h))
           (extraScripts h))]"
    by (simp add: handler_success build_helmet_def build_app_def root_markup_def)
  then show "\<exists>INJ. effects (fst (handler L conf bi wp (ops\<lparr>maxSsrRounds := Some 0\<rparr>) req R))
              = [Send (document None (publicPath wp) [] [] (serializeJs L []) INJ
                         (extraScripts h))]"
    by (simp only: same) blast
qed

theorem maxSsrRounds_not_read_witness:
  "Application mock_options = None
   \<and> run_hook mock_options mock_req (sanitizedConfig mock_config)
       = Inr \<lparr>configToInject = None, extraScripts = None, store = None\<rparr>
   \<and> \<not> broken mock_rng
   \<and> handler mock_libs mock_config mock_build_info mock_wp
        (mock_options\<lparr>maxSsrRounds := Some 0\<rparr>) mock_req mock_rng
       = handler mock_libs mock_config mock_build_info mock_wp mock_options mock_req mock_rng
   \<and> (\<exists>INJ. effects (fst (handler mock_libs mock_config mock_build_info mock_wp
                 (mock_options\<lparr>maxSsrRounds := Some 0\<rparr>) mock_req mock_rng))
          = [Send (document None (publicPath mock_wp) [] [] (serializeJs mock_libs []) INJ
                     (extraScripts \<lparr>configToInject = None, extraScripts = None,
                                    store = None\<rparr>))])"
proof -
  have a: "Application mock_options = None"
    by (simp add: mock_options_def)
  have b: "run_hook mock_options mock_req (sanitizedConfig mock_config)
       = Inr \<lparr>configToInject = None, extraScripts = None, store = None\<rparr>"
    by (simp add: run_hook_def mock_options_def)
  have c: "\<not> broken mock_rng"
    by (simp add: mock_rng_def)
  show ?thesis
    using maxSsrRounds_not_read [where L = mock_libs and conf = mock_config
        and bi = mock_build_info and wp = mock_wp and ops = mock_options and req = mock_req
        and R = mock_rng and m = "Some 0"
        and h = "\<lparr>configToInject = None, extraScripts = None, store = None\<rparr>"]
      a b c
    by blast
qed

text \<open>
  Claim C3 as stated fails: with \<^verbatim>\<open>maxSsrRounds = 0\<close> and an application given, the element is
  built all the same, and the root div of the document is not empty.
\<close>

theorem maxSsrRounds_zero_counterexample:
  "sublist ''<div id=\"react-view\">[object Object]</div>''
       (concat (sent (effects (fst (handler mock_libs mock_config mock_build_info mock_wp
          (mock_options\<lparr>Application := Some ''Scene'', maxSsrRounds := Some 0\<rparr>)
          mock_req mock_rng)))))
   \<and> \<not> sublist ''<div id=\"react-view\"></div>''
       (concat (sent (effects (fst (handler mock_libs mock_config mock_build_info mock_wp
          (mock_options\<lparr>Application := Some ''Scene'', maxSsrRounds := Some 0\<rparr>)
          mock_req mock_rng)))))"
  by code_simp

section \<open>Stylesheet links\<close>



section \<open>The order of the scripts\<close>

text \<open>
  Claim C5, as the code has it. In the document sent, the root div is followed by the inline
  data script, this by the polyfills script tag, this by the caller's extra scripts, joined as
  they are, and these by the main script tag, after which only the closing tags of the
  template follow: every extra script lies after the polyfills tag and before the main one.
\<close>

theorem extra_scripts_before_main:
  assumes "run_hook ops req (sanitizedConfig conf) = Inr h" and "\<not> broken R"
  shows "\<exists>doc root INJ.
       effects (fst (handler L conf bi wp ops req R)) = [Send doc]
     \<and> appears_after (react_view root) (inj_script (serializeJs L []) INJ) doc
     \<and> appears_after (inj_script (serializeJs L []) INJ) (polyfills_script (publicPath wp)) doc
     \<and> appears_after (polyfills_script (publicPath wp)) (extras_markup (extraScripts h)) doc
     \<and> appears_after (extras_markup (extraScripts h)) (main_script (publicPath wp)) doc
     \<and> (\<forall>xs. extraScripts h = Some xs \<longrightarrow>
          (\<forall>e \<in> set xs. appears_after (polyfills_script (publicPath wp)) e doc
                      \<and> appears_after e (main_script (publicPath wp)) doc))
     \<and> suffix (main_script (publicPath wp) @ doc_tail) doc"
proof -
  let ?iv = "map (tape R) [pos R ..< pos R + 32]"
  let ?INJ = "envelope L \<lparr>cipher_key = key bi, cipher_iv = ?iv, cipher_input = []\<rparr> ?iv
                (payload (sanitizedConfig conf) h)"
  let ?root = "root_markup (build_app ops req \<lparr>chunks = [], splits = [], status = None\<rparr> (store h))"
  let ?pp = "publicPath wp"
  let ?sj = "serializeJs L []"
  let ?ex = "extras_markup (extraScripts h)"
  let ?doc = "document (build_helmet L ops) ?pp [] ?root ?sj ?INJ (extraScripts h)"
  let ?A = "doc_head (build_helmet L ops) ?pp [] @ ln 8 ''<body>'' @ ln 10 []"
  have run: "effects (fst (handler L conf bi wp ops req R)) = [Send ?doc]"
    using assms by (simp add: handler_success)
  have parts: "?doc = ?A @ react_view ?root @ ln 10 [] @ inj_script ?sj ?INJ
       @ ln 10 [] @ polyfills_script ?pp @ ln 10 [] @ ?ex @ ln 10 [] @ main_script ?pp @ doc_tail"
    by (rule document_parts)
  have 1: "appears_after (react_view ?root) (inj_script ?sj ?INJ) ?doc"
    by (rule appears_afterI [where P = ?A and M = "ln 10 []"]) (simp add: parts)
  have 2: "appears_after (inj_script ?sj ?INJ) (polyfills_script ?pp) ?doc"
    by (rule appears_afterI [where P = "?A @ react_view ?root @ ln 10 []" and M = "ln 10 []"])
       (simp add: parts)
  have 3: "appears_after (polyfills_script ?pp) ?ex ?doc"
    by (rule appears_afterI [where
          P = "?A @ react_view ?root @ ln 10 [] @ inj_script ?sj ?INJ @ ln 10 []"
          and M = "ln 10 []"])
       (simp add: parts)
  have 4: "appears_after ?ex (main_script ?pp) ?doc"
    by (rule appears_afterI [where
          P = "?A @ react_view ?root @ ln 10 [] @ inj_script ?sj ?INJ @ ln 10 []
               @ polyfills_script ?pp @ ln 10 []"
          and M = "ln 10 []"])
       (simp add: parts)
  have 5: "appears_after (polyfills_script ?pp) e ?doc \<and> appears_after e (main_script ?pp) ?doc"
    if xs: "extraScripts h = Some xs" and e: "e \<in> set xs" for xs e
  proof -
    obtain ys zs where "xs = ys @ e # zs" using e by (meson split_list)
    then have ex: "?ex = concat ys @ e @ concat zs"
      using xs by (simp add: extras_markup_def)
    have a: "appears_after (polyfills_script ?pp) e ?doc"
      by (rule appears_afterI [where
          P = "?A @ react_view ?root @ ln 10 [] @ inj_script ?sj ?INJ @ ln 10 []"
          and M = "ln 10 [] @ concat ys"])
         (simp add: parts ex)
    have b: "appears_after e (main_script ?pp) ?doc"
      by (rule appears_afterI [where
          P = "?A @ react_view ?root @ ln 10 [] @ inj_script ?sj ?INJ @ ln 10 []
               @ polyfills_script ?pp @ ln 10 [] @ concat ys"
          and M = "concat zs @ ln 10 []"])
         (simp add: parts ex)
    from a b show ?thesis ..
  qed
  have 6: "suffix (main_script ?pp @ doc_tail) ?doc"
    by (subst parts) (metis append.assoc suffixI)
  show ?thesis
    using run 1 2 3 4 5 6 by blast
qed

theorem extra_scripts_before_main_witness:
  "run_hook (mock_options\<lparr>beforeRender := Some mock_hook_extra\<rparr>) mock_req
       (sanitizedConfig mock_config)
     = Inr \<lparr>configToInject = None, extraScripts = Some [mock_extra_script], store = None\<rparr>
   \<and> \<not> broken mock_rng
   \<and> extraScripts \<lparr>configToInject = None, extraScripts = Some [mock_extra_script],
                    store = None\<rparr> = Some [mock_extra_script]
   \<and> mock_extra_script \<in> set [mock_extra_script]
   \<and> (\<exists>doc. effects (fst (handler mock_libs mock_config mock_build_info mock_wp
                 (mock_options\<lparr>beforeRender := Some mock_hook_extra\<rparr>) mock_req mock_rng))
               = [Send doc]
        \<and> appears_after (polyfills_script (publicPath mock_wp)) mock_extra_script doc
        \<and> appears_after mock_extra_script (main_script (publicPath mock_wp)) doc
        \<and> suffix (main_script (publicPath mock_wp) @ doc_tail) doc)"
proof -
  have a: "run_hook (mock_options\<lparr>beforeRender := Some mock_hook_extra\<rparr>) mock_req
       (sanitizedConfig mock_config)
     = Inr \<lparr>configToInject = None, extraScripts = Some [mock_extra_script], store = None\<rparr>"
    by (simp add: run_hook_def mock_hook_extra_def)
  have b: "\<not> broken mock_rng"
    by (simp add: mock_rng_def)
  have c: "extraScripts \<lparr>configToInject = None, extraScripts = Some [mock_extra_script],
                    store = None\<rparr> = Some [mock_extra_script]"
    by simp
  have d: "mock_extra_script \<in> set [mock_extra_script]"
    by simp
  show ?thesis
    using extra_scripts_before_main [OF a b, where L = mock_libs and bi = mock_build_info
        and wp = mock_wp] a b c d
    by blast
qed

text \<open>
  Claim C5 as stated fails: an extra script does not appear after the main script tag, but
  before it.
\<close>

theorem extra_scripts_after_main_counterexample:
  "\<not> appears_after (main_script (publicPath mock_wp)) mock_extra_script
      (concat (sent (effects (fst (handler mock_libs mock_config mock_build_info mock_wp
         (mock_options\<lparr>beforeRender := Some mock_hook_extra\<rparr>) mock_req mock_rng)))))
   \<and> appears_after mock_extra_script (main_script (publicPath mock_wp))
      (concat (sent (effects (fst (handler mock_libs mock_config mock_build_info mock_wp
         (mock_options\<lparr>beforeRender := Some mock_hook_extra\<rparr>) mock_req mock_rng)))))"
  by code_simp

section \<open>Failures of a request\<close>

text \<open>
  Claim C6, as the code has it. The handler never calls an error callback. When the hook's
  promise rejects, the promise of the handler rejects with the hook's error; when the random
  source reports an error, it rejects with that error; when both fail, it rejects with the one
  of the two errors that \<^verbatim>\<open>Promise.all\<close> sees first. In each case nothing has been done to the
  response; and whenever the handler does not resolve, no document, whole or partial, has
  been sent.
\<close>

theorem failure_rejects_and_sends_nothing:
  "reported (effects (fst (handler L conf bi wp ops req R))) = []
   \<and> (run_hook ops req (sanitizedConfig conf) = Inl e \<and> \<not> broken R \<longrightarrow>
        fst (handler L conf bi wp ops req R) = \<lparr>effects = [], outcome = Rejected e\<rparr>)
   \<and> (run_hook ops req (sanitizedConfig conf) = Inr h \<and> broken R \<longrightarrow>
        fst (handler L conf bi wp ops req R)
          = \<lparr>effects = [], outcome = Rejected CryptoBackendUnavailable\<rparr>)
   \<and> (run_hook ops req (sanitizedConfig conf) = Inl e \<and> broken R \<longrightarrow>
        fst (handler L conf bi wp ops req R)
          = \<lparr>effects = [],
             outcome = Rejected (if hook_first L then e else CryptoBackendUnavailable)\<rparr>)
   \<and> ((\<exists>e. run_hook ops req (sanitizedConfig conf) = Inl e) \<or> broken R \<longrightarrow>
        (\<exists>e. outcome (fst (handler L conf bi wp ops req R)) = Rejected e)
        \<and> effects (fst (handler L conf bi wp ops req R)) = [])
   \<and> (outcome (fst (handler L conf bi wp ops req R)) \<noteq> Resolved () \<longrightarrow>
        sent (effects (fst (handler L conf bi wp ops req R))) = [])"
proof (intro conjI impI)
  show "reported (effects (fst (handler L conf bi wp ops req R))) = []"
    by (rule handler_reported)
  show "fst (handler L conf bi wp ops req R) = \<lparr>effects = [], outcome = Rejected e\<rparr>"
    if "run_hook ops req (sanitizedConfig conf) = Inl e \<and> \<not> broken R"
    by (rule handler_hook_rejects [OF conjunct1 [OF that] conjunct2 [OF that]])
  show "fst (handler L conf bi wp ops req R)
          = \<lparr>effects = [], outcome = Rejected CryptoBackendUnavailable\<rparr>"
    if "run_hook ops req (sanitizedConfig conf) = Inr h \<and> broken R"
    by (rule handler_source_broken [OF conjunct1 [OF that] conjunct2 [OF that]])
  show "fst (handler L conf bi wp ops req R)
          = \<lparr>effects = [],
             outcome = Rejected (if hook_first L then e else CryptoBackendUnavailable)\<rparr>"
    if "run_hook ops req (sanitizedConfig conf) = Inl e \<and> broken R"
    by (rule handler_both_fail [OF conjunct1 [OF that] conjunct2 [OF that]])
  show "\<exists>e. outcome (fst (handler L conf bi wp ops req R)) = Rejected e"
    if "(\<exists>e. run_hook ops req (sanitizedConfig conf) = Inl e) \<or> broken R"
    using handler_failure [OF that] by (rule conjunct1)
  show "effects (fst (handler L conf bi wp ops req R)) = []"
    if "(\<exists>e. run_hook ops req (sanitizedConfig conf) = Inl e) \<or> broken R"
    using handler_failure [OF that] by (rule conjunct2)
  show "sent (effects (fst (handler L conf bi wp ops req R))) = []"
    if "outcome (fst (handler L conf bi wp ops req R)) \<noteq> Resolved ()"
    using handler_outcome [OF that] by simp
qed

theorem failure_rejects_and_sends_nothing_witness:
  "run_hook (mock_options\<lparr>beforeRender := Some mock_hook_rejecting\<rparr>) mock_req
        (sanitizedConfig mock_config) = Inl (HookRejected ''no session'')
   \<and> run_hook mock_options mock_req (sanitizedConfig mock_config)
       = Inr \<lparr>configToInject = None, extraScripts = None, store = None\<rparr>
   \<and> \<not> broken mock_rng
   \<and> broken (mock_rng\<lparr>broken := True\<rparr>)
   \<and> hook_first mock_libs
   \<and> fst (handler mock_libs mock_config mock_build_info mock_wp
        (mock_options\<lparr>beforeRender := Some mock_hook_rejecting\<rparr>) mock_req mock_rng)
       = \<lparr>effects = [], outcome = Rejected (HookRejected ''no session'')\<rparr>
   \<and> fst (handler mock_libs mock_config mock_build_info mock_wp mock_options
        mock_req (mock_rng\<lparr>broken := True\<rparr>))
       = \<lparr>effects = [], outcome = Rejected CryptoBackendUnavailable\<rparr>
   \<and> fst (handler mock_libs mock_config mock_build_info mock_wp
        (mock_options\<lparr>beforeRender := Some mock_hook_rejecting\<rparr>) mock_req
        (mock_rng\<lparr>broken := True\<rparr>))
       = \<lparr>effects = [], outcome = Rejected (HookRejected ''no session'')\<rparr>
   \<and> fst (handler (mock_libs\<lparr>hook_first := False\<rparr>) mock_config mock_build_info mock_wp
        (mock_options\<lparr>beforeRender := Some mock_hook_rejecting\<rparr>) mock_req
        (mock_rng\<lparr>broken := True\<rparr>))
       = \<lparr>effects = [], outcome = Rejected CryptoBackendUnavailable\<rparr>
   \<and> outcome (fst (handler mock_libs mock_config mock_build_info mock_wp mock_options
        mock_req (mock_rng\<lparr>broken := True\<rparr>))) \<noteq> Resolved ()
   \<and> sent (effects (fst (handler mock_libs mock_config mock_build_info mock_wp mock_options
        mock_req (mock_rng\<lparr>broken := True\<rparr>)))) = []
   \<and> reported (effects (fst (handler mock_libs mock_config mock_build_info mock_wp mock_options
        mock_req (mock_rng\<lparr>broken := True\<rparr>)))) = []"
proof -
  let ?rej = "mock_options\<lparr>beforeRender := Some mock_hook_rejecting\<rparr>"
  let ?h = "\<lparr>configToInject = None, extraScripts = None, store = None\<rparr>"
  let ?B = "mock_rng\<lparr>broken := True\<rparr>"
  have a: "run_hook ?rej mock_req (sanitizedConfig mock_config)
      = Inl (HookRejected ''no session'')"
    by (simp add: run_hook_def mock_hook_rejecting_def)
  have b: "run_hook mock_options mock_req (sanitizedConfig mock_config) = Inr ?h"
    by (simp add: run_hook_def mock_options_def)
  have c: "\<not> broken mock_rng"
    by (simp add: mock_rng_def)
  have d: "broken ?B"
    by simp
  have e: "hook_first mock_libs"
    by (simp add: mock_libs_def)
  have f: "\<not> hook_first (mock_libs\<lparr>hook_first := False\<rparr>)"
    by simp
  note T1 = failure_rejects_and_sends_nothing [where L = mock_libs and conf = mock_config
      and bi = mock_build_info and wp = mock_wp and ops = ?rej and req = mock_req
      and R = mock_rng and e = "HookRejected ''no session''" and h = ?h]
  note T2 = failure_rejects_and_sends_nothing [where L = mock_libs and conf = mock_config
      and bi = mock_build_info and wp = mock_wp and ops = mock_options and req = mock_req
      and R = ?B and e = "HookRejected ''no session''" and h = ?h]
  note T3 = failure_rejects_and_sends_nothing [where L = mock_libs and conf = mock_config
      and bi = mock_build_info and wp = mock_wp and ops = ?rej and req = mock_req
      and R = ?B and e = "HookRejected ''no session''" and h = ?h]
  note T4 = failure_rejects_and_sends_nothing [where L = "mock_libs\<lparr>hook_first := False\<rparr>"
      and conf = mock_config
      and bi = mock_build_info and wp = mock_wp and ops = ?rej and req = mock_req
      and R = ?B and e = "HookRejected ''no session''" and h = ?h]
  have 1: "fst (handler mock_libs mock_config mock_build_info mock_wp ?rej mock_req mock_rng)
       = \<lparr>effects = [], outcome = Rejected (HookRejected ''no session'')\<rparr>"
    using T1 a c by blast
  have 2: "fst (handler mock_libs mock_config mock_build_info mock_wp mock_options
        mock_req ?B) = \<lparr>effects = [], outcome = Rejected CryptoBackendUnavailable\<rparr>"
    using T2 b d by blast
  have 3: "fst (handler mock_libs mock_config mock_build_info mock_wp ?rej mock_req ?B)
       = \<lparr>effects = [], outcome = Rejected (HookRejected ''no session'')\<rparr>"
    using T3 a d e by simp
  have 4: "fst (handler (mock_libs\<lparr>hook_first := False\<rparr>) mock_config mock_build_info mock_wp
        ?rej mock_req ?B) = \<lparr>effects = [], outcome = Rejected CryptoBackendUnavailable\<rparr>"
    using T4 a d f by simp
  have 5: "outcome (fst (handler mock_libs mock_config mock_build_info mock_wp mock_options
        mock_req ?B)) \<noteq> Resolved ()"
    by (simp add: 2)
  have 6: "sent (effects (fst (handler mock_libs mock_config mock_build_info mock_wp
        mock_options mock_req ?B))) = []"
    using T2 5 by blast
  have 7: "reported (effects (fst (handler mock_libs mock_config mock_build_info mock_wp
        mock_options mock_req ?B))) = []"
    using T2 by blast
  show ?thesis
    by (intro conjI a b c d e 1 2 3 4 5 6 7)
qed

text \<open>
  Claim C6 as stated fails: with a broken random source the handler rejects and the error is
  reported to an error callback zero times, not once.
\<close>

theorem error_callback_counterexample:
  "outcome (fst (handler mock_libs mock_config mock_build_info mock_wp mock_options
        mock_req (mock_rng\<lparr>broken := True\<rparr>))) = Rejected CryptoBackendUnavailable
   \<and> length (reported (effects (fst (handler mock_libs mock_config mock_build_info mock_wp
        mock_options mock_req (mock_rng\<lparr>broken := True\<rparr>))))) \<noteq> 1"
  by (simp add: handler_def prepareCipher_def getBytes_def run_hook_def mock_options_def)

end
